theory Spec2Isabelle
  imports Main "HOL-Library.AList" "HOL-Library.Monad_Syntax"
begin

section \<open>Transport channel: \<open>WebSocketConnection\<close> (web-socket.connection.ts)\<close>

text \<open>
  The browser socket. \<open>readyState\<close> is the WebSocket ready state; \<open>listeners\<close> is the
  list of registered (event, function) pairs. A function reference is either the
  function object stored under a name (\<open>Method\<close>: \<open>this.onReady\<close>, \<open>this.onMessage\<close>,
  \<open>this.onError\<close>, \<open>this.connectionProps.onDisconnect\<close>) or a fresh function object
  made from it by \<open>.bind(this)\<close> (\<open>Bind\<close>): JavaScript compares listeners by
  identity, so \<open>removeEventListener\<close> removes a pair only when it is given the very
  reference that was added. \<open>createWebSocket\<close> adds the bound copies of the first three
  and \<open>connectionProps.onDisconnect\<close> itself; \<open>close\<close> removes the four stored
  functions.
\<close>

datatype readyState = CONNECTING | OPEN | CLOSING | CLOSED

datatype ws_event = EvOpen | EvMessage | EvError | EvClose

datatype callee = OnReady | OnMessage | OnError | OnDisconnect

datatype fn_ref = Method callee | Bind callee

record socket =
  readyState :: readyState
  listeners :: "(ws_event \<times> fn_ref) list"

text \<open>
  \<open>QueueItem\<close>: the packet producer and the two optional hooks. \<open>getPacket\<close> is the
  packet the producer yields. A present \<open>beforeWriting\<close> hook is represented by the
  number of microtask turns its promise needs to settle (0 for an async function that
  finishes without awaiting); \<open>afterWriting\<close> is a tag the owner interprets.
\<close>

record ('p, 'a) QueueItem =
  getPacket :: 'p
  beforeWriting :: "nat option"
  afterWriting :: "'a option"

text \<open>
  The connection object. \<open>sockets\<close> holds every socket created so far (a socket lives
  on after \<open>this.ws\<close> is reset), \<open>ws\<close> is the index of the current one (\<open>None\<close> for
  null). \<open>wire\<close> lists the packets handed to \<open>ws.send\<close>, \<open>afterCalls\<close> the
  \<open>afterWriting\<close> hooks that ran, \<open>fired\<close> the collaborator callbacks of
  \<open>connectionProps\<close> that were invoked. \<open>awaiting\<close> holds the writes suspended at
  \<open>await item.beforeWriting?.(...)\<close> with the number of microtask turns after which
  each resumes.
\<close>

record ('p, 'a) WebSocketConnection =
  sockets :: "socket list"
  ws :: "nat option"
  packetQueue :: "('p, 'a) QueueItem list"
  awaiting :: "(nat \<times> ('p, 'a) QueueItem) list"
  wire :: "'p list"
  afterCalls :: "('a \<times> 'p) list"
  fired :: "callee list"

definition newConnection :: "('p, 'a) WebSocketConnection" where
  "newConnection = \<lparr>sockets = [], ws = None, packetQueue = [], awaiting = [],
     wire = [], afterCalls = [], fired = []\<rparr>"

definition ws_isActive :: "('p, 'a) WebSocketConnection \<Rightarrow> bool" where
  "ws_isActive c =
     (case ws c of None \<Rightarrow> False
      | Some k \<Rightarrow> k < length (sockets c) \<and> readyState (sockets c ! k) = OPEN)"

definition createWebSocket :: socket where
  "createWebSocket = \<lparr>readyState = CONNECTING,
     listeners = [(EvOpen, Bind OnReady), (EvMessage, Bind OnMessage),
                  (EvError, Bind OnError), (EvClose, Method OnDisconnect)]\<rparr>"

definition ws_open ::
  "('p, 'a) QueueItem list \<Rightarrow> ('p, 'a) WebSocketConnection \<Rightarrow> ('p, 'a) WebSocketConnection" where
  "ws_open packets c =
     c\<lparr>packetQueue := (if packets \<noteq> [] then packets @ packetQueue c else packetQueue c),
       sockets := sockets c @ [createWebSocket],
       ws := Some (length (sockets c))\<rparr>"

definition removeEventListener :: "ws_event \<Rightarrow> fn_ref \<Rightarrow> socket \<Rightarrow> socket" where
  "removeEventListener ev f sk = sk\<lparr>listeners := filter (\<lambda>l. l \<noteq> (ev, f)) (listeners sk)\<rparr>"

definition ws_close :: "('p, 'a) WebSocketConnection \<Rightarrow> ('p, 'a) WebSocketConnection" where
  "ws_close c =
     (case ws c of
        None \<Rightarrow> c\<lparr>ws := None, packetQueue := []\<rparr>
      | Some k \<Rightarrow>
          if k < length (sockets c) then
            let sk = sockets c ! k;
                sk1 = removeEventListener EvMessage (Method OnMessage)
                       (removeEventListener EvOpen (Method OnReady)
                         (removeEventListener EvClose (Method OnDisconnect)
                           (removeEventListener EvError (Method OnError) sk)));
                active = (readyState sk = OPEN);
                sk2 = (if active then sk1\<lparr>readyState := CLOSING\<rparr> else sk1)
            in c\<lparr>sockets := (sockets c)[k := sk2],
                 fired := (if active then fired c @ [OnDisconnect] else fired c),
                 ws := None, packetQueue := []\<rparr>
          else c\<lparr>ws := None, packetQueue := []\<rparr>)"

text \<open>
  \<open>write\<close> is an async function. On an active channel the call evaluates the producer,
  calls the hook and suspends at the \<open>await\<close>; the rest (\<open>ws.send\<close> and
  \<open>afterWriting\<close>) runs in a later microtask, one turn after the hook's promise has
  settled. On an inactive channel the item is pushed to the queue.
\<close>

definition ws_write ::
  "('p, 'a) QueueItem \<Rightarrow> ('p, 'a) WebSocketConnection \<Rightarrow> ('p, 'a) WebSocketConnection" where
  "ws_write item c =
     (if ws_isActive c
      then c\<lparr>awaiting := awaiting c @
               [(Suc (case beforeWriting item of None \<Rightarrow> 0 | Some d \<Rightarrow> d), item)]\<rparr>
      else c\<lparr>packetQueue := packetQueue c @ [item]\<rparr>)"

text \<open>
  The part of \<open>write\<close> after the \<open>await\<close>: \<open>this.ws.send(...)\<close>, then
  \<open>afterWriting\<close>. \<open>send\<close> puts the frame on the wire of an open socket, drops it
  silently on a closing or closed one, and throws on a connecting one, as does the
  property access when \<open>this.ws\<close> is null; a throw rejects the promise of \<open>write\<close>,
  which nobody observes, and skips \<open>afterWriting\<close>.
\<close>

datatype send_outcome = Sent | Dropped | Threw

definition ws_send_outcome :: "('p, 'a) WebSocketConnection \<Rightarrow> send_outcome" where
  "ws_send_outcome c =
     (case ws c of
        None \<Rightarrow> Threw
      | Some k \<Rightarrow>
          if k < length (sockets c) then
            (case readyState (sockets c ! k) of
               OPEN \<Rightarrow> Sent | CONNECTING \<Rightarrow> Threw | CLOSING \<Rightarrow> Dropped | CLOSED \<Rightarrow> Dropped)
          else Threw)"

definition ws_resume ::
  "('p, 'a) QueueItem \<Rightarrow> ('p, 'a) WebSocketConnection \<Rightarrow> ('p, 'a) WebSocketConnection" where
  "ws_resume item c =
     (case ws_send_outcome c of
        Threw \<Rightarrow> c
      | oc \<Rightarrow>
          c\<lparr>wire := (if oc = Sent then wire c @ [getPacket item] else wire c),
            afterCalls := afterCalls c @
              (case afterWriting item of None \<Rightarrow> [] | Some a \<Rightarrow> [(a, getPacket item)])\<rparr>)"

text \<open>
  The microtask queue of the host: suspended writes resume in the order of the turn in
  which their awaited promise settles, and within one turn in the order in which they
  were suspended (\<open>sort_key\<close> is a stable sort).
\<close>

definition run_microtasks ::
  "('p, 'a) WebSocketConnection \<Rightarrow> ('p, 'a) WebSocketConnection" where
  "run_microtasks c =
     fold ws_resume (map snd (sort_key fst (awaiting c))) (c\<lparr>awaiting := []\<rparr>)"

text \<open>
  The callback that \<open>onReady\<close> hands to \<open>setTimeout\<close>: \<open>forEach\<close> calls \<open>write\<close> on
  every queued item without awaiting the promises it returns (items pushed during the
  iteration are not visited), the queue is reset and the ready collaborator is called.
\<close>

definition ws_onReady ::
  "('p, 'a) WebSocketConnection \<Rightarrow> ('p, 'a) WebSocketConnection" where
  "ws_onReady c =
     (let c1 = fold ws_write (packetQueue c) c
      in c1\<lparr>packetQueue := [], fired := fired c1 @ [OnReady]\<rparr>)"

text \<open>
  Socket events. The open event of socket \<open>k\<close> sets it \<open>OPEN\<close> and, when its open
  listener is still registered, runs the deferred \<open>onReady\<close> callback and then the
  microtasks it left. The close event sets the socket \<open>CLOSED\<close> and calls the
  registered close listeners.
\<close>

definition open_event ::
  "nat \<Rightarrow> ('p, 'a) WebSocketConnection \<Rightarrow> ('p, 'a) WebSocketConnection" where
  "open_event k c =
     (if k < length (sockets c) \<and> readyState (sockets c ! k) = CONNECTING then
        let c1 = c\<lparr>sockets := (sockets c)[k := (sockets c ! k)\<lparr>readyState := OPEN\<rparr>]\<rparr>
        in if (EvOpen, Bind OnReady) \<in> set (listeners (sockets c ! k))
           then run_microtasks (ws_onReady c1) else c1
      else c)"

definition close_event ::
  "nat \<Rightarrow> ('p, 'a) WebSocketConnection \<Rightarrow> ('p, 'a) WebSocketConnection" where
  "close_event k c =
     (if k < length (sockets c) \<and> readyState (sockets c ! k) \<noteq> CLOSED then
        c\<lparr>sockets := (sockets c)[k := (sockets c ! k)\<lparr>readyState := CLOSED\<rparr>],
          fired := fired c @
            map (\<lambda>_. OnDisconnect)
              (filter (\<lambda>l. l = (EvClose, Method OnDisconnect)) (listeners (sockets c ! k)))\<rparr>
      else c)"

section \<open>Packets\<close>

text \<open>
  Modelled from the spec: the packet entity (inworld_packet.entity.ts) is not among the
  sources, only its test. A packet has a packet id (\<open>packetId\<close>, \<open>interactionId\<close>,
  \<open>utteranceId\<close>), a routing source, a type discriminant and the payload of its type;
  one predicate per type, and \<open>isInteractionEnd\<close> for a control packet whose control
  type is \<open>INTERACTION_END\<close>. An absent string field is the empty string, which is
  falsy in JavaScript as \<open>undefined\<close> is. The wire form and the object form carry the
  same fields, so \<open>convertPacketFromProto\<close> is the identity here.
\<close>

datatype InworldPacketType =
  AUDIO | TEXT | TRIGGER | EMOTION | SILENCE | CANCEL_RESPONSE | CONTROL | UNKNOWN

datatype InworlControlType = INTERACTION_END | TTS_PLAYBACK_MUTE | TTS_PLAYBACK_UNMUTE

record PacketId =
  pid :: string
  interactionId :: string
  utteranceId :: string

record Actor =
  name :: string
  isPlayer :: bool
  isCharacter :: bool

record CancelResponsesProps =
  cr_interactionId :: string
  cr_utteranceId :: "string list"

record InworldPacket =
  packetId :: PacketId
  source :: Actor
  ptype :: InworldPacketType
  textPayload :: string
  control :: "InworlControlType option"
  cancelPayload :: "(CancelResponsesProps \<times> string list) option"

definition isAudio :: "InworldPacket \<Rightarrow> bool" where
  "isAudio p = (ptype p = AUDIO)"

definition isText :: "InworldPacket \<Rightarrow> bool" where
  "isText p = (ptype p = TEXT)"

definition isSilence :: "InworldPacket \<Rightarrow> bool" where
  "isSilence p = (ptype p = SILENCE)"

definition isCancelResponse :: "InworldPacket \<Rightarrow> bool" where
  "isCancelResponse p = (ptype p = CANCEL_RESPONSE)"

definition isControl :: "InworldPacket \<Rightarrow> bool" where
  "isControl p = (ptype p = CONTROL)"

definition isInteractionEnd :: "InworldPacket \<Rightarrow> bool" where
  "isInteractionEnd p = (isControl p \<and> control p = Some INTERACTION_END)"

section \<open>Connection orchestrator: \<open>ConnectionService\<close> (connection.service.ts)\<close>

datatype ConnectionState = INACTIVE | LOADING | LOADED | ACTIVATING | ACTIVE | RECONNECTING

datatype TtsPlaybackAction = TTS_UNKNOWN | MUTE | UNMUTE

datatype AudioSessionState = AUDIO_UNKNOWN | AUDIO_START | AUDIO_END

record SessionToken =
  token :: string
  tokenType :: string
  expirationTime :: int
  sessionId :: string

text \<open>
  The two \<open>afterWriting\<close> hooks the service builds: the one of \<open>write\<close> and the one of
  the replayed packets of \<open>getPacketsToSentOnOpen\<close>.
\<close>

datatype after_hook = WriteAfter | ReplayAfter

type_synonym item = "(InworldPacket, after_hook) QueueItem"

text \<open>
  The collaborators are observed through what the service calls on them: \<open>history\<close>
  lists the calls on the history accumulator, \<open>audioQueue\<close> the packets given to
  \<open>grpcAudioPlayer.addToQueue\<close>, \<open>callbacks\<close> the host callbacks fired (\<open>CbError\<close>
  stands for the host's \<open>onError\<close>, or \<open>console.error\<close> when the host gave none).
\<close>

datatype history_call = AddOrUpdate InworldPacket | Filter CancelResponsesProps

datatype callback =
  CbError string | CbMessage InworldPacket | CbInterruption CancelResponsesProps
  | CbHistoryChange | CbReady | CbDisconnect

text \<open>
  The fields of the service. The two maps are JavaScript objects: association lists in
  insertion order, read with \<open>map_of\<close>, written with \<open>AList.update\<close> and
  \<open>AList.delete\<close>. \<open>disconnectTimer\<close> says whether an idle-disconnect timeout is
  pending. The polling promise that \<open>write\<close> returns (\<open>resolvePacket\<close>) only hands the
  converted packet back to the caller and is left out.
\<close>

record ConnectionService =
  state :: ConnectionState
  audioSessionAction :: AudioSessionState
  ttsPlaybackAction :: TtsPlaybackAction
  scene :: "string list option"
  session :: "SessionToken option"
  connection :: "(InworldPacket, after_hook) WebSocketConnection"
  disconnectTimer :: bool
  cancelResponses :: "(string \<times> bool) list"
  packetsInProgress :: "(string \<times> InworldPacket) list"
  history :: "history_call list"
  audioQueue :: "InworldPacket list"
  callbacks :: "callback list"

text \<open>
  The configuration and the answers of the collaborators the service calls:
  \<open>stopForInteraction\<close> and \<open>getCurrentPacket\<close> of the playback collaborator
  (\<open>stopTurns\<close>: the microtask turns the promise of \<open>stopForInteraction\<close> takes to
  settle), the token generator and the scene loader (\<open>Inl\<close> is the message of the error
  thrown), \<open>SessionToken.isExpired\<close>, whether \<open>history.addOrUpdate\<close> reports a change,
  and the packets the event factory builds.
\<close>

record Env =
  autoReconnect :: "bool option"
  interruptions :: bool
  disconnectTimeout :: nat
  stopForInteraction :: "string \<Rightarrow> InworldPacket list"
  stopTurns :: nat
  getCurrentPacket :: "InworldPacket option"
  generateSessionToken :: "string + SessionToken"
  isExpired :: "SessionToken \<Rightarrow> bool"
  loadSceneResult :: "string + string list"
  historyChanged :: "InworldPacket \<Rightarrow> bool"
  newPacketId :: PacketId
  playerActor :: Actor

text \<open>
  Modelled from the spec: the event factory is not among the sources. \<open>cancelResponse\<close>
  builds the CANCEL_RESPONSE packet naming the interaction and the utterance ids (and the
  characters it is addressed to); \<open>ttsPlaybackMute\<close> builds the mute control packet.
\<close>

definition cancelResponse :: "Env \<Rightarrow> CancelResponsesProps \<Rightarrow> string list \<Rightarrow> InworldPacket" where
  "cancelResponse env cr characters =
     \<lparr>packetId = newPacketId env, source = playerActor env, ptype = CANCEL_RESPONSE,
      textPayload = [], control = None, cancelPayload = Some (cr, characters)\<rparr>"

definition ttsPlaybackMute :: "Env \<Rightarrow> InworldPacket" where
  "ttsPlaybackMute env =
     \<lparr>packetId = newPacketId env, source = playerActor env, ptype = CONTROL,
      textPayload = [], control = Some TTS_PLAYBACK_MUTE, cancelPayload = None\<rparr>"

subsection \<open>The error patterns\<close>

text \<open>
  \<open>new RegExp('Session (.*?) expired or invalid').test(message)\<close>: somewhere in the
  message stands \<open>Session \<close>, then any characters but line terminators, then
  \<open> expired or invalid\<close>.
\<close>

primrec starts_with :: "string \<Rightarrow> string \<Rightarrow> bool" where
  "starts_with [] s = True"
| "starts_with (c # cs) s = (case s of [] \<Rightarrow> False | d # ds \<Rightarrow> c = d \<and> starts_with cs ds)"

definition lineTerminator :: "char \<Rightarrow> bool" where
  "lineTerminator c = (c = CHR 0x0A \<or> c = CHR 0x0D)"

primrec any_then :: "string \<Rightarrow> string \<Rightarrow> bool" where
  "any_then lit [] = starts_with lit []"
| "any_then lit (c # cs) =
     (starts_with lit (c # cs) \<or> (\<not> lineTerminator c \<and> any_then lit cs))"

definition match_here :: "string \<Rightarrow> bool" where
  "match_here s = (starts_with ''Session '' s \<and> any_then '' expired or invalid'' (drop 8 s))"

primrec sessionExpiredRegExp_test :: "string \<Rightarrow> bool" where
  "sessionExpiredRegExp_test [] = match_here []"
| "sessionExpiredRegExp_test (c # cs) = (match_here (c # cs) \<or> sessionExpiredRegExp_test cs)"

definition invalidToken :: string where
  "invalidToken = ''invalid JWT token''"

subsection \<open>Small operations\<close>

definition isActive :: "ConnectionService \<Rightarrow> bool" where
  "isActive s = (state s = ACTIVE)"

definition isAutoReconnected :: "Env \<Rightarrow> bool" where
  "isAutoReconnected env = (case autoReconnect env of None \<Rightarrow> True | Some b \<Rightarrow> b)"

definition cancelScheduler :: "ConnectionService \<Rightarrow> ConnectionService" where
  "cancelScheduler s = s\<lparr>disconnectTimer := False\<rparr>"

definition scheduleDisconnect :: "Env \<Rightarrow> ConnectionService \<Rightarrow> ConnectionService" where
  "scheduleDisconnect env s =
     (if disconnectTimeout env \<noteq> 0 then (cancelScheduler s)\<lparr>disconnectTimer := True\<rparr> else s)"

definition addPacketToHistory :: "Env \<Rightarrow> InworldPacket \<Rightarrow> ConnectionService \<Rightarrow> ConnectionService" where
  "addPacketToHistory env p s =
     s\<lparr>history := history s @ [AddOrUpdate p],
       callbacks := (if historyChanged env p then callbacks s @ [CbHistoryChange]
                     else callbacks s)\<rparr>"

definition hasPacketsInProgress :: "ConnectionService \<Rightarrow> bool" where
  "hasPacketsInProgress s = (packetsInProgress s \<noteq> [])"

text \<open>
  \<open>ensureSessionToken\<close> returns the session, or the error the generator threw, and the
  service after the call. \<open>beforeLoading\<close> says whether the caller passed the hook
  (\<open>loadScene\<close> passes one that sets the state to \<open>LOADING\<close>).
\<close>

definition ensureSessionToken ::
  "Env \<Rightarrow> bool \<Rightarrow> ConnectionService \<Rightarrow> (string + SessionToken) \<times> ConnectionService" where
  "ensureSessionToken env beforeLoading s =
     (case (case session s of None \<Rightarrow> None
            | Some cur \<Rightarrow> if isExpired env cur then None else Some cur) of
        Some cur \<Rightarrow> (Inr cur, s)
      | None \<Rightarrow>
          let s1 = (if beforeLoading then s\<lparr>state := LOADING\<rparr> else s) in
          (case generateSessionToken env of
             Inl err \<Rightarrow> (Inl err, s1)
           | Inr generated \<Rightarrow>
               let sessionToken =
                     (case session s1 of
                        None \<Rightarrow> generated
                      | Some old \<Rightarrow>
                          if sessionId old \<noteq> [] then old\<lparr>sessionId := sessionId old\<rparr>
                          else generated)
               in (Inr sessionToken, s1\<lparr>session := Some sessionToken\<rparr>)))"

text \<open>
  \<open>getPacketsToSentOnOpen\<close> returns the items for \<open>connection.open\<close> and the service
  (the replay branch empties \<open>packetsInProgress\<close>).
\<close>

definition getPacketsToSentOnOpen :: "Env \<Rightarrow> ConnectionService \<Rightarrow> item list \<times> ConnectionService" where
  "getPacketsToSentOnOpen env s =
     (let packets1 =
            (if isAutoReconnected env \<and> ttsPlaybackAction s = MUTE
             then [\<lparr>getPacket = ttsPlaybackMute env, beforeWriting = None, afterWriting = None\<rparr>]
             else [])
      in if state s = RECONNECTING
         then (packets1 @
                 map (\<lambda>(interactionId, producer).
                        \<lparr>getPacket = producer, beforeWriting = None,
                         afterWriting = Some ReplayAfter\<rparr>) (packetsInProgress s),
               s\<lparr>packetsInProgress := []\<rparr>)
         else (packets1, s))"

text \<open>
  The hooks of the item that \<open>write\<close> builds. \<open>writeHookTurns\<close> counts the microtask turns
  the promise of its \<open>beforeWriting\<close> takes to settle: none when the packet is not TEXT
  (nothing is awaited), one for the \<open>await\<close> of \<open>interruptByPacket\<close>, and when
  interruptions are enabled one more for the \<open>await\<close> of \<open>stopForInteraction\<close> plus the
  turns that promise takes.
\<close>

definition writeHookTurns :: "Env \<Rightarrow> InworldPacket \<Rightarrow> nat" where
  "writeHookTurns env p =
     (if isText p then Suc (if interruptions env then Suc (stopTurns env) else 0) else 0)"

definition writeItem :: "Env \<Rightarrow> InworldPacket \<Rightarrow> item" where
  "writeItem env p =
     \<lparr>getPacket = p, beforeWriting = Some (writeHookTurns env p),
      afterWriting = Some WriteAfter\<rparr>"

definition runAfterWriting ::
  "Env \<Rightarrow> after_hook option \<Rightarrow> InworldPacket \<Rightarrow> ConnectionService \<Rightarrow> ConnectionService" where
  "runAfterWriting env h p s =
     (case h of
        None \<Rightarrow> s
      | Some WriteAfter \<Rightarrow> addPacketToHistory env p (scheduleDisconnect env s)
      | Some ReplayAfter \<Rightarrow>
          if isText p \<or> isAudio p
          then s\<lparr>packetsInProgress :=
                   AList.update (interactionId (packetId p)) p (packetsInProgress s)\<rparr>
          else s)"

text \<open>
  A suspended write of the connection resumes: the frame is sent and the hook runs on
  the service. \<open>settle\<close> runs the microtasks that are pending, which is what every
  \<open>await\<close> of a running chain and the end of the running task do.
\<close>

definition resume :: "Env \<Rightarrow> item \<Rightarrow> ConnectionService \<Rightarrow> ConnectionService" where
  "resume env it s =
     (case ws_send_outcome (connection s) of
        Threw \<Rightarrow> s
      | oc \<Rightarrow> runAfterWriting env (afterWriting it) (getPacket it)
               (s\<lparr>connection := ws_resume it (connection s)\<rparr>))"

definition settle :: "Env \<Rightarrow> ConnectionService \<Rightarrow> ConnectionService" where
  "settle env s =
     fold (resume env) (map snd (sort_key fst (awaiting (connection s))))
       (s\<lparr>connection := (connection s)\<lparr>awaiting := []\<rparr>\<rparr>)"

text \<open>
  The \<open>try\<close> block of \<open>send\<close> up to the call of \<open>write\<close>: the idle timer is
  cancelled, then the usage error is thrown (\<open>Inl\<close>) or the block goes on (\<open>Inr\<close>).
  The \<open>catch\<close> of \<open>send\<close> hands what was thrown to \<open>onError\<close>.
\<close>

definition send_try :: "Env \<Rightarrow> ConnectionService \<Rightarrow> string + ConnectionService" where
  "send_try env s =
     (let s1 = cancelScheduler s in
      if \<not> isActive s1 \<and> \<not> isAutoReconnected env
      then Inl ''Unable to send data due inactive connection''
      else Inr s1)"

subsection \<open>The operations that call each other\<close>

text \<open>
  \<open>onError\<close>, \<open>open\<close>, \<open>loadScene\<close>, \<open>send\<close>, \<open>write\<close>, the active branch of
  \<open>connection.write\<close> with the hooks of \<open>write\<close>, \<open>interruptByPacket\<close> and
  \<open>sendCancelResponses\<close> call each other, and \<open>onError\<close> can reopen without end when the
  collaborators keep failing with an authentication error: they are one partial function
  over the call, \<open>None\<close> when the chain never comes to rest. A chain is followed to its
  end with the collaborators answering as \<open>Env\<close> says, a call that is not awaited
  (\<open>this.send(...)\<close> in \<open>sendCancelResponses\<close>, \<open>this.open()\<close> and
  \<open>this.connection.write(...)\<close> in \<open>write\<close>, \<open>this.onError(err)\<close> in a \<open>catch\<close>)
  at the place of the call. What stays pending is the part of a transport write after
  its \<open>await\<close> (\<open>ws.send\<close> and \<open>afterWriting\<close>): it is suspended with one turn
  left, its hook having run, and resumes when the pending microtasks run (\<open>settle\<close>),
  which every \<open>await\<close> of the chain and the end of the task do.

  Left out: the branch of \<open>loadScene\<close> that restores a previous conversation into the
  history and \<open>setCharacterList\<close> (they touch the history collaborator and the event
  factory only), and the \<open>catch\<close> of \<open>open\<close>, which has nothing to catch here because
  \<open>loadScene\<close> catches its own errors.
\<close>

datatype call =
  OnErrorC string
  | OpenC
  | LoadSceneC
  | SendC InworldPacket
  | WriteC InworldPacket
  | ConnectionWriteC item
  | BeforeWritingC InworldPacket
  | InterruptByPacketC InworldPacket
  | SendCancelResponsesC CancelResponsesProps "string list"

partial_function (option) svc :: "Env \<Rightarrow> call \<Rightarrow> ConnectionService \<Rightarrow> ConnectionService option" where
  "svc env c s =
     (case c of
        OnErrorC message \<Rightarrow>
          (let s1 = s\<lparr>callbacks := callbacks s @ [CbError message]\<rparr> in
           if (sessionExpiredRegExp_test message \<or> invalidToken = message)
              \<and> isAutoReconnected env
           then Option.bind
                  (svc env OpenC (s1\<lparr>session := None, scene := None, state := INACTIVE\<rparr>))
                  (\<lambda>s2. Some (settle env s2))
           else Some s1)
      | OpenC \<Rightarrow>
          (case getPacketsToSentOnOpen env s of
             (packets, s1) \<Rightarrow>
               Option.bind (svc env LoadSceneC s1)
                 (\<lambda>s2. let s3 = settle env s2 in
                    if state s3 = LOADED
                    then Some (scheduleDisconnect env
                           (settle env
                             (s3\<lparr>state := ACTIVATING,
                                 connection := ws_open packets (connection s3)\<rparr>)))
                    else Some s3))
      | LoadSceneC \<Rightarrow>
          (if state s = LOADING then Some s
           else
             (case ensureSessionToken env True s of
                (Inl err, s1) \<Rightarrow> svc env (OnErrorC err) (settle env s1)
              | (Inr tok, s1) \<Rightarrow>
                  (let s2 = settle env s1 in
                   case (if scene s2 = None
                         then (case loadSceneResult env of
                                 Inl err \<Rightarrow> Inl err
                               | Inr sc \<Rightarrow> Inr ((settle env s2)\<lparr>scene := Some sc\<rparr>))
                         else Inr s2) of
                     Inl err \<Rightarrow> svc env (OnErrorC err) (settle env s2)
                   | Inr s3 \<Rightarrow>
                       Some (if state s3 = LOADING \<or> state s3 = INACTIVE
                             then s3\<lparr>state := LOADED\<rparr> else s3))))
      | SendC p \<Rightarrow>
          (case send_try env s of
             Inl err \<Rightarrow> svc env (OnErrorC err) (cancelScheduler s)
           | Inr s1 \<Rightarrow> svc env (WriteC p) s1)
      | WriteC p \<Rightarrow>
          Option.bind (svc env (ConnectionWriteC (writeItem env p)) s)
            (\<lambda>s1. if \<not> isActive s1 then svc env OpenC s1 else Some s1)
      | ConnectionWriteC it \<Rightarrow>
          (if ws_isActive (connection s)
           then Option.bind
                  (case beforeWriting it of
                     None \<Rightarrow> Some s
                   | Some d \<Rightarrow> svc env (BeforeWritingC (getPacket it)) s)
                  (\<lambda>s1. Some (s1\<lparr>connection := (connection s1)
                           \<lparr>awaiting := awaiting (connection s1) @ [(Suc 0, it)]\<rparr>\<rparr>))
           else Some (s\<lparr>connection := ws_write it (connection s)\<rparr>))
      | BeforeWritingC p \<Rightarrow>
          Option.bind
            (if isText p
             then Option.bind (svc env (InterruptByPacketC p) s) (\<lambda>s1. Some (settle env s1))
             else Some s)
            (\<lambda>s1. Some (if isText p \<or> isAudio p
                         then s1\<lparr>packetsInProgress :=
                                 AList.update (interactionId (packetId p)) p
                                   (packetsInProgress s1)\<rparr>
                         else s1))
      | InterruptByPacketC p \<Rightarrow>
          (if \<not> interruptions env then Some s
           else
             (let packets = stopForInteraction env (interactionId (packetId p));
                  s1 = settle env s
              in case packets of
                   [] \<Rightarrow> Some s1
                 | first # rest \<Rightarrow>
                     svc env
                       (SendCancelResponsesC
                          \<lparr>cr_interactionId = interactionId (packetId first),
                           cr_utteranceId = map (\<lambda>q. utteranceId (packetId q)) packets\<rparr>
                          (map (\<lambda>q. name (source q)) packets))
                       s1))
      | SendCancelResponsesC cr characters \<Rightarrow>
          (if cr_interactionId cr \<noteq> []
           then Option.bind (svc env (SendC (cancelResponse env cr characters)) s)
                  (\<lambda>s1. Some (s1\<lparr>cancelResponses :=
                                  AList.update (cr_interactionId cr) True (cancelResponses s1),
                                callbacks := callbacks s1 @ [CbInterruption cr],
                                history := history s1 @ [Filter cr]\<rparr>))
           else Some s))"

declare svc.simps [code]

definition onError :: "Env \<Rightarrow> string \<Rightarrow> ConnectionService \<Rightarrow> ConnectionService option" where
  "onError env message s = svc env (OnErrorC message) s"

definition cs_open :: "Env \<Rightarrow> ConnectionService \<Rightarrow> ConnectionService option" where
  "cs_open env s = svc env OpenC s"

definition loadScene :: "Env \<Rightarrow> ConnectionService \<Rightarrow> ConnectionService option" where
  "loadScene env s = svc env LoadSceneC s"

definition send :: "Env \<Rightarrow> InworldPacket \<Rightarrow> ConnectionService \<Rightarrow> ConnectionService option" where
  "send env p s = svc env (SendC p) s"

definition cs_write :: "Env \<Rightarrow> InworldPacket \<Rightarrow> ConnectionService \<Rightarrow> ConnectionService option" where
  "cs_write env p s = svc env (WriteC p) s"

definition connection_write :: "Env \<Rightarrow> item \<Rightarrow> ConnectionService \<Rightarrow> ConnectionService option" where
  "connection_write env it s = svc env (ConnectionWriteC it) s"

definition beforeWritingHook ::
  "Env \<Rightarrow> InworldPacket \<Rightarrow> ConnectionService \<Rightarrow> ConnectionService option" where
  "beforeWritingHook env p s = svc env (BeforeWritingC p) s"

definition interruptByPacket ::
  "Env \<Rightarrow> InworldPacket \<Rightarrow> ConnectionService \<Rightarrow> ConnectionService option" where
  "interruptByPacket env p s = svc env (InterruptByPacketC p) s"

definition sendCancelResponses ::
  "Env \<Rightarrow> CancelResponsesProps \<Rightarrow> string list \<Rightarrow> ConnectionService \<Rightarrow> ConnectionService option" where
  "sendCancelResponses env cr characters s = svc env (SendCancelResponsesC cr characters) s"

text \<open>The public \<open>interrupt\<close>.\<close>

definition interrupt :: "Env \<Rightarrow> ConnectionService \<Rightarrow> ConnectionService option" where
  "interrupt env s =
     (case getCurrentPacket env of
        None \<Rightarrow> Some s
      | Some packet \<Rightarrow> map_option (settle env) (interruptByPacket env packet s))"

text \<open>
  The inbound handler \<open>onMessage\<close> of \<open>initializeHandlers\<close>. A marker of
  \<open>cancelResponses\<close> is truthy when it is \<open>true\<close>.
\<close>

definition cancelled :: "ConnectionService \<Rightarrow> string \<Rightarrow> bool" where
  "cancelled s i = (map_of (cancelResponses s) i = Some True)"


definition onMessage :: "Env \<Rightarrow> InworldPacket \<Rightarrow> ConnectionService \<Rightarrow> ConnectionService option" where
  "onMessage env packet s =
     (let i = interactionId (packetId packet);
          s1 = (if isInteractionEnd packet
                then s\<lparr>packetsInProgress := AList.delete i (packetsInProgress s)\<rparr> else s)
      in if isText packet \<and> \<not> isPlayer (source packet) \<and> cancelled s1 i
         then sendCancelResponses env
                \<lparr>cr_interactionId = i, cr_utteranceId = [utteranceId (packetId packet)]\<rparr>
                [name (source packet)] s1
         else Option.bind
                (if isText packet \<and> isPlayer (source packet)
                 then map_option (settle env) (interruptByPacket env packet s1)
                 else Some s1)
                (\<lambda>s2.
                   let s3 = (if (isAudio packet \<or> isSilence packet) \<and> \<not> cancelled s2 i
                             then s2\<lparr>audioQueue := audioQueue s2 @ [packet]\<rparr> else s2);
                       s4 = (if isInteractionEnd packet
                             then s3\<lparr>cancelResponses := AList.delete i (cancelResponses s3)\<rparr>
                             else s3);
                       s5 = addPacketToHistory env packet s4
                   in Some (s5\<lparr>callbacks := callbacks s5 @ [CbMessage packet]\<rparr>)))"

section \<open>Session-state persistence loop: \<open>SessionStateService\<close>\<close>

datatype CHAT_HISTORY_TYPE =
  H_ACTOR | H_TRIGGER_EVENT | H_INTERACTION_END | H_NARRATED_ACTION










section \<open>Example values\<close>

text \<open>A configuration, a fresh service and some packets, used to run the operations.\<close>

definition oldToken :: SessionToken where
  "oldToken = \<lparr>token = ''old'', tokenType = ''IW1'', expirationTime = 0, sessionId = ''s1''\<rparr>"

definition newToken :: SessionToken where
  "newToken = \<lparr>token = ''new'', tokenType = ''IW1'', expirationTime = 100, sessionId = ''s2''\<rparr>"

definition env0 :: Env where
  "env0 = \<lparr>autoReconnect = None, interruptions = True, disconnectTimeout = 0,
     stopForInteraction = (\<lambda>i. []), stopTurns = 0, getCurrentPacket = None,
     generateSessionToken = Inr newToken,
     isExpired = (\<lambda>t. expirationTime t \<le> 10), loadSceneResult = Inr [''alice''],
     historyChanged = (\<lambda>p. True),
     newPacketId = \<lparr>pid = ''c1'', interactionId = ''ci'', utteranceId = ''cu''\<rparr>,
     playerActor = \<lparr>name = ''player'', isPlayer = True, isCharacter = False\<rparr>\<rparr>"

definition service0 :: ConnectionService where
  "service0 = \<lparr>state = INACTIVE, audioSessionAction = AUDIO_UNKNOWN,
     ttsPlaybackAction = TTS_UNKNOWN, scene = None, session = None,
     connection = newConnection, disconnectTimer = False, cancelResponses = [],
     packetsInProgress = [], history = [], audioQueue = [], callbacks = []\<rparr>"

definition mkPacket :: "InworldPacketType \<Rightarrow> string \<Rightarrow> string \<Rightarrow> bool \<Rightarrow> InworldPacket" where
  "mkPacket t i u player =
     \<lparr>packetId = \<lparr>pid = ''p'', interactionId = i, utteranceId = u\<rparr>,
      source = \<lparr>name = (if player then ''player'' else ''alice''), isPlayer = player,
                isCharacter = \<not> player\<rparr>,
      ptype = t, textPayload = [], control = None, cancelPayload = None\<rparr>"

definition openSocket :: "(InworldPacket, after_hook) WebSocketConnection" where
  "openSocket = newConnection\<lparr>sockets := [createWebSocket\<lparr>readyState := OPEN\<rparr>], ws := Some 0\<rparr>"

definition textPacket :: InworldPacket where
  "textPacket = mkPacket TEXT ''i1'' ''u1'' True"

definition triggerPacket :: InworldPacket where
  "triggerPacket = mkPacket TRIGGER ''i2'' ''u2'' True"

definition playingPacket :: InworldPacket where
  "playingPacket = mkPacket AUDIO ''i1'' ''u0'' False"


definition endPacket :: InworldPacket where
  "endPacket = (mkPacket CONTROL ''i1'' ''u9'' False)\<lparr>control := Some INTERACTION_END\<rparr>"

definition activeService :: ConnectionService where
  "activeService = service0\<lparr>state := ACTIVE, connection := openSocket,
     session := Some newToken, scene := Some [''alice'']\<rparr>"

definition busyService :: ConnectionService where
  "busyService = activeService\<lparr>cancelResponses := [(''i1'', True)],
     packetsInProgress := [(''i1'', textPacket)]\<rparr>"

definition expiredService :: ConnectionService where
  "expiredService = service0\<lparr>session := Some oldToken\<rparr>"





definition connectingChannel :: "(nat, unit) WebSocketConnection" where
  "connectingChannel = ws_open [\<lparr>getPacket = 7, beforeWriting = None, afterWriting = None\<rparr>] newConnection"

definition openChannel :: "(nat, unit) WebSocketConnection" where
  "openChannel = open_event 0 connectingChannel"

definition inProgressService :: ConnectionService where
  "inProgressService = activeService\<lparr>packetsInProgress := [(''i1'', textPacket)]\<rparr>"

definition plainItem :: "nat \<Rightarrow> (nat, unit) QueueItem" where
  "plainItem n = \<lparr>getPacket = n, beforeWriting = None, afterWriting = None\<rparr>"

section \<open>The operations, one equation each\<close>

lemma onError_unfold:
  "onError env message s =
     (let s1 = s\<lparr>callbacks := callbacks s @ [CbError message]\<rparr> in
      if (sessionExpiredRegExp_test message \<or> invalidToken = message) \<and> isAutoReconnected env
      then Option.bind (cs_open env (s1\<lparr>session := None, scene := None, state := INACTIVE\<rparr>))
             (\<lambda>s2. Some (settle env s2))
      else Some s1)"
  unfolding onError_def cs_open_def by (subst svc.simps) simp

lemma cs_open_unfold:
  "cs_open env s =
     (case getPacketsToSentOnOpen env s of
        (packets, s1) \<Rightarrow>
          Option.bind (loadScene env s1)
            (\<lambda>s2. let s3 = settle env s2 in
               if state s3 = LOADED
               then Some (scheduleDisconnect env
                      (settle env
                        (s3\<lparr>state := ACTIVATING,
                            connection := ws_open packets (connection s3)\<rparr>)))
               else Some s3))"
  unfolding cs_open_def loadScene_def by (subst svc.simps) simp

lemma loadScene_unfold:
  "loadScene env s =
     (if state s = LOADING then Some s
      else
        (case ensureSessionToken env True s of
           (Inl err, s1) \<Rightarrow> onError env err (settle env s1)
         | (Inr tok, s1) \<Rightarrow>
             (let s2 = settle env s1 in
              case (if scene s2 = None
                    then (case loadSceneResult env of
                            Inl err \<Rightarrow> Inl err
                          | Inr sc \<Rightarrow> Inr ((settle env s2)\<lparr>scene := Some sc\<rparr>))
                    else Inr s2) of
                Inl err \<Rightarrow> onError env err (settle env s2)
              | Inr s3 \<Rightarrow>
                  Some (if state s3 = LOADING \<or> state s3 = INACTIVE
                        then s3\<lparr>state := LOADED\<rparr> else s3))))"
  unfolding loadScene_def onError_def by (subst svc.simps) simp

lemma send_unfold:
  "send env p s =
     (case send_try env s of
        Inl err \<Rightarrow> onError env err (cancelScheduler s)
      | Inr s1 \<Rightarrow> cs_write env p s1)"
  unfolding send_def onError_def cs_write_def by (subst svc.simps) simp

lemma cs_write_unfold:
  "cs_write env p s =
     Option.bind (connection_write env (writeItem env p) s)
       (\<lambda>s1. if \<not> isActive s1 then cs_open env s1 else Some s1)"
  unfolding cs_write_def connection_write_def cs_open_def by (subst svc.simps) simp

lemma connection_write_unfold:
  "connection_write env it s =
     (if ws_isActive (connection s)
      then Option.bind
             (case beforeWriting it of
                None \<Rightarrow> Some s
              | Some d \<Rightarrow> beforeWritingHook env (getPacket it) s)
             (\<lambda>s1. Some (s1\<lparr>connection := (connection s1)
                      \<lparr>awaiting := awaiting (connection s1) @ [(Suc 0, it)]\<rparr>\<rparr>))
      else Some (s\<lparr>connection := ws_write it (connection s)\<rparr>))"
  unfolding connection_write_def beforeWritingHook_def by (subst svc.simps) simp


lemma interruptByPacket_unfold:
  "interruptByPacket env p s =
     (if \<not> interruptions env then Some s
      else
        (let packets = stopForInteraction env (interactionId (packetId p));
             s1 = settle env s
         in case packets of
              [] \<Rightarrow> Some s1
            | first # rest \<Rightarrow>
                sendCancelResponses env
                  \<lparr>cr_interactionId = interactionId (packetId first),
                   cr_utteranceId = map (\<lambda>q. utteranceId (packetId q)) packets\<rparr>
                  (map (\<lambda>q. name (source q)) packets) s1))"
  unfolding interruptByPacket_def sendCancelResponses_def by (subst svc.simps) simp


section \<open>Auxiliary facts\<close>

lemma settle_quiet: "awaiting (connection s) = [] \<Longrightarrow> settle env s = s"
  by (simp add: settle_def)

lemma keys_delete: "fst ` set (AList.delete k al) = fst ` set al - {k}"
  by (induction al) auto

lemma ws_isActive_upd [simp]:
  "ws_isActive (c\<lparr>awaiting := a\<rparr>) = ws_isActive c"
  "ws_isActive (c\<lparr>packetQueue := q\<rparr>) = ws_isActive c"
  "ws_isActive (c\<lparr>wire := w\<rparr>) = ws_isActive c"
  "ws_isActive (c\<lparr>afterCalls := ac\<rparr>) = ws_isActive c"
  "ws_isActive (c\<lparr>fired := f\<rparr>) = ws_isActive c"
  by (simp_all add: ws_isActive_def split: option.splits)

lemma active_sent: "ws_isActive c \<Longrightarrow> ws_send_outcome c = Sent"
  by (auto simp add: ws_isActive_def ws_send_outcome_def split: option.splits)


lemma cancel_not_text [simp]:
  "\<not> isText (cancelResponse env cr cs)" "\<not> isAudio (cancelResponse env cr cs)"
  by (simp_all add: isText_def isAudio_def cancelResponse_def)





lemma resume_frame:
  "state (resume env it s) = state s"
  "session (resume env it s) = session s"
  "scene (resume env it s) = scene s"
  "cancelResponses (resume env it s) = cancelResponses s"
  "audioQueue (resume env it s) = audioQueue s"
  "ttsPlaybackAction (resume env it s) = ttsPlaybackAction s"
  "ws (connection (resume env it s)) = ws (connection s)"
  "sockets (connection (resume env it s)) = sockets (connection s)"
  "packetQueue (connection (resume env it s)) = packetQueue (connection s)"
  "awaiting (connection (resume env it s)) = awaiting (connection s)"
  by (simp_all add: resume_def ws_resume_def runAfterWriting_def addPacketToHistory_def
      scheduleDisconnect_def cancelScheduler_def
      split: send_outcome.splits option.splits after_hook.splits)

lemma fold_resume_frame:
  "state (fold (resume env) its s) = state s"
  "session (fold (resume env) its s) = session s"
  "scene (fold (resume env) its s) = scene s"
  "cancelResponses (fold (resume env) its s) = cancelResponses s"
  "audioQueue (fold (resume env) its s) = audioQueue s"
  "ttsPlaybackAction (fold (resume env) its s) = ttsPlaybackAction s"
  "ws (connection (fold (resume env) its s)) = ws (connection s)"
  "sockets (connection (fold (resume env) its s)) = sockets (connection s)"
  "packetQueue (connection (fold (resume env) its s)) = packetQueue (connection s)"
  "awaiting (connection (fold (resume env) its s)) = awaiting (connection s)"
  by (induction its arbitrary: s; simp add: resume_frame)+

lemma settle_frame:
  "state (settle env s) = state s"
  "session (settle env s) = session s"
  "scene (settle env s) = scene s"
  "cancelResponses (settle env s) = cancelResponses s"
  "audioQueue (settle env s) = audioQueue s"
  "ttsPlaybackAction (settle env s) = ttsPlaybackAction s"
  "ws (connection (settle env s)) = ws (connection s)"
  "sockets (connection (settle env s)) = sockets (connection s)"
  "packetQueue (connection (settle env s)) = packetQueue (connection s)"
  "awaiting (connection (settle env s)) = []"
  by (simp_all add: settle_def fold_resume_frame)

lemma settle_active [simp]: "ws_isActive (connection (settle env s)) = ws_isActive (connection s)"
  by (simp add: ws_isActive_def settle_frame split: option.splits)

lemma settle_idem [simp]: "settle env (settle env s) = settle env s"
  by (simp add: settle_quiet settle_frame)








lemma service0_fields:
  "state service0 = INACTIVE" "session service0 = None" "scene service0 = None"
  "connection service0 = newConnection" "callbacks service0 = []"
  "ttsPlaybackAction service0 = TTS_UNKNOWN" "packetsInProgress service0 = []"
  by (simp_all add: service0_def)

lemma env0_fields:
  "autoReconnect env0 = None" "interruptions env0" "disconnectTimeout env0 = 0"
  "generateSessionToken env0 = Inr newToken" "loadSceneResult env0 = Inr [''alice'']"
  "getCurrentPacket env0 = None" "stopTurns env0 = 0"
  by (simp_all add: env0_def)

lemma fold_ws_write_inactive:
  "\<not> ws_isActive c \<Longrightarrow> fold ws_write xs c = c\<lparr>packetQueue := packetQueue c @ xs\<rparr>"
  by (induction xs arbitrary: c) (simp_all add: ws_write_def)

lemma fold_ws_write_active:
  "ws_isActive c \<Longrightarrow>
   fold ws_write xs c =
     c\<lparr>awaiting := awaiting c @
         map (\<lambda>it. (Suc (case beforeWriting it of None \<Rightarrow> 0 | Some d \<Rightarrow> d), it)) xs\<rparr>"
  by (induction xs arbitrary: c) (simp_all add: ws_write_def)

lemma ws_resume_active:
  "ws_isActive c \<Longrightarrow> ws_isActive (ws_resume it c) \<and> wire (ws_resume it c) = wire c @ [getPacket it]"
  by (simp add: ws_resume_def active_sent)

lemma fold_ws_resume_active:
  "ws_isActive c \<Longrightarrow> wire (fold ws_resume xs c) = wire c @ map getPacket xs"
  by (induction xs arbitrary: c) (simp_all add: ws_resume_active)

section \<open>Transport channel\<close>

text \<open>
  C1. The failing run. The service is inactive with auto-reconnect on; a TEXT packet
  and then a TRIGGER packet are sent before the socket has opened, so both items are
  queued in this order. When the socket opens, the flush starts both writes; the write of
  the TRIGGER item resumes first, because the hook of the TEXT item awaits
  \<open>interruptByPacket\<close> and the hook of the TRIGGER item awaits nothing. The wire gets
  TRIGGER, then TEXT.
\<close>

theorem flush_reorders_text_and_trigger:
  "map_option (\<lambda>s. map getPacket (packetQueue (connection s)))
     (Option.bind (send env0 textPacket service0) (send env0 triggerPacket))
     = Some [textPacket, triggerPacket]
   \<and> map_option (\<lambda>s. wire (open_event 0 (connection s)))
     (Option.bind (send env0 textPacket service0) (send env0 triggerPacket))
     = Some [triggerPacket, textPacket]"
  by (simp add: send_unfold send_try_def cs_write_unfold connection_write_unfold ws_isActive_def
      cancelScheduler_def service0_fields newConnection_def ws_write_def isActive_def
      cs_open_unfold getPacketsToSentOnOpen_def isAutoReconnected_def env0_fields
      loadScene_unfold ensureSessionToken_def Let_def settle_def ws_open_def
      scheduleDisconnect_def createWebSocket_def writeItem_def writeHookTurns_def
      open_event_def ws_onReady_def run_microtasks_def ws_resume_def ws_send_outcome_def
      isText_def textPacket_def triggerPacket_def mkPacket_def newToken_def env0_def)

text \<open>
  The flush does keep the order of the queue, open-time items first, when the hooks of
  all queued items settle in the same number of microtask turns (as when no item has a
  \<open>beforeWriting\<close> hook).
\<close>

theorem flush_fifo_uniform_hooks:
  assumes "\<not> ws_isActive c" and "awaiting c = []"
    and "\<forall>it \<in> set (ps @ packetQueue c @ xs). beforeWriting it = b"
  shows "wire (open_event (length (sockets c)) (ws_open ps (fold ws_write xs c)))
           = wire c @ map getPacket (ps @ packetQueue c @ xs)"
proof -
  define q where "q = ps @ packetQueue c @ xs"
  define d where "d = Suc (case b of None \<Rightarrow> 0 | Some d \<Rightarrow> d)"
  define c1 where "c1 = c\<lparr>packetQueue := q, ws := Some (length (sockets c)),
      sockets := sockets c @ [createWebSocket\<lparr>readyState := OPEN\<rparr>]\<rparr>"
  have a1: "ws_isActive c1" by (simp add: c1_def ws_isActive_def)
  have m: "map (\<lambda>it. (Suc (case beforeWriting it of None \<Rightarrow> 0 | Some d \<Rightarrow> d), it)) q
            = map (\<lambda>it. (d, it)) q"
    using assms(3) by (simp add: q_def d_def)
  have srt: "sort_key fst (map (\<lambda>it. (d, it)) q) = map (\<lambda>it. (d, it)) q"
    by (rule sort_key_id_if_sorted) (simp add: comp_def sorted_replicate map_replicate_const)
  have op: "ws_open ps (fold ws_write xs c) =
      c\<lparr>packetQueue := q, sockets := sockets c @ [createWebSocket], ws := Some (length (sockets c))\<rparr>"
    using assms(1) by (simp add: fold_ws_write_inactive ws_open_def q_def)
  have ev: "open_event (length (sockets c)) (ws_open ps (fold ws_write xs c))
      = run_microtasks (ws_onReady c1)"
    by (simp add: op open_event_def createWebSocket_def c1_def Let_def)
  have rdy: "ws_onReady c1 = c1\<lparr>awaiting := map (\<lambda>it. (d, it)) q, packetQueue := [],
      fired := fired c1 @ [OnReady]\<rparr>"
    using assms(2) by (simp add: ws_onReady_def fold_ws_write_active [OF a1] Let_def m) (simp add: c1_def m)
  let ?X = "(c1\<lparr>awaiting := map (\<lambda>it. (d, it)) q, packetQueue := [],
      fired := fired c1 @ [OnReady]\<rparr>)\<lparr>awaiting := []\<rparr>"
  have a2: "ws_isActive ?X"
    using a1 by simp
  have run: "run_microtasks (ws_onReady c1) = fold ws_resume q ?X"
    unfolding rdy run_microtasks_def by (simp add: srt comp_def)
  have "wire (fold ws_resume q ?X) = wire ?X @ map getPacket q"
    by (rule fold_ws_resume_active [OF a2])
  then show ?thesis
    unfolding ev run by (simp add: c1_def q_def)
qed

theorem flush_fifo_uniform_hooks_witness:
  "\<not> ws_isActive (newConnection :: (nat, unit) WebSocketConnection)
   \<and> wire (open_event 0 (ws_open [plainItem 1] (fold ws_write [plainItem 2, plainItem 3]
         (newConnection :: (nat, unit) WebSocketConnection)))) = [1, 2, 3]"
proof -
  let ?c = "newConnection :: (nat, unit) WebSocketConnection"
  have a: "\<not> ws_isActive ?c" "awaiting ?c = []"
    by (simp_all add: newConnection_def ws_isActive_def)
  have b: "\<forall>it \<in> set ([plainItem 1] @ packetQueue ?c @ [plainItem 2, plainItem 3]).
             beforeWriting it = None"
    by (simp add: plainItem_def newConnection_def)
  show ?thesis
    using a flush_fifo_uniform_hooks [OF a b]
    by (simp add: newConnection_def plainItem_def)
qed

text \<open>
  C8, as the code has it. \<open>close\<close> resets \<open>ws\<close> and empties the queue; it fires the
  disconnect collaborator once when the socket is open and not at all otherwise; it
  closes the socket only when it is open; the close listener is detached, so a close
  event that arrives afterwards fires nothing; a second \<open>close\<close> changes nothing.
\<close>

theorem ws_close_effects:
  "ws (ws_close c) = None \<and> packetQueue (ws_close c) = []
   \<and> fired (ws_close c) = (if ws_isActive c then fired c @ [OnDisconnect] else fired c)
   \<and> wire (ws_close c) = wire c
   \<and> ws_close (ws_close c) = ws_close c
   \<and> (\<forall>k. ws c = Some k \<and> k < length (sockets c) \<longrightarrow>
         (EvClose, Method OnDisconnect) \<notin> set (listeners (sockets (ws_close c) ! k))
       \<and> readyState (sockets (ws_close c) ! k) =
           (if readyState (sockets c ! k) = OPEN then CLOSING else readyState (sockets c ! k))
       \<and> fired (close_event k (ws_close c)) = fired (ws_close c))"
  by (auto simp add: ws_close_def ws_isActive_def Let_def removeEventListener_def close_event_def
      filter_empty_conv split: option.splits)

theorem ws_close_effects_witness:
  "ws openChannel = Some 0 \<and> 0 < length (sockets openChannel)
   \<and> ws (ws_close openChannel) = None \<and> packetQueue (ws_close openChannel) = []
   \<and> fired (ws_close openChannel) = fired openChannel @ [OnDisconnect]
   \<and> readyState (sockets (ws_close openChannel) ! 0) = CLOSING
   \<and> fired (close_event 0 (ws_close openChannel)) = fired openChannel @ [OnDisconnect]
   \<and> ws_close (ws_close openChannel) = ws_close openChannel"
proof -
  have a: "ws openChannel = Some 0" "0 < length (sockets openChannel)"
    "ws_isActive openChannel" "readyState (sockets openChannel ! 0) = OPEN"
    by (simp_all add: connectingChannel_def openChannel_def ws_open_def newConnection_def
      createWebSocket_def ws_isActive_def Let_def open_event_def
      ws_onReady_def ws_write_def run_microtasks_def ws_resume_def ws_send_outcome_def)
  show ?thesis
    using a ws_close_effects [of openChannel] by simp
qed

text \<open>
  Closing a channel whose socket is still connecting fires no disconnect and leaves the
  socket connecting.
\<close>

theorem ws_close_connecting_counterexample:
  "ws_isActive openChannel \<and> fired (ws_close openChannel) = [OnReady, OnDisconnect]
   \<and> \<not> ws_isActive connectingChannel \<and> fired (ws_close connectingChannel) = []
   \<and> readyState (sockets (ws_close connectingChannel) ! 0) = CONNECTING"
  by (simp add: connectingChannel_def openChannel_def ws_open_def newConnection_def ws_close_def
      createWebSocket_def removeEventListener_def ws_isActive_def Let_def open_event_def
      ws_onReady_def ws_write_def run_microtasks_def ws_resume_def ws_send_outcome_def)

section \<open>Inbound handler\<close>

text \<open>
  C4. After the inbound handler has processed an interaction-end packet, the handler
  has returned and the interaction id of the packet is a key of neither
  \<open>packetsInProgress\<close> nor \<open>cancelResponses\<close>.
\<close>

theorem onMessage_interactionEnd_clears:
  assumes "isInteractionEnd p"
  shows "\<exists>s'. onMessage env p s = Some s'
           \<and> interactionId (packetId p) \<notin> fst ` set (packetsInProgress s')
           \<and> interactionId (packetId p) \<notin> fst ` set (cancelResponses s')"
proof -
  from assms have "ptype p = CONTROL"
    by (simp add: isInteractionEnd_def isControl_def)
  then have nt: "\<not> isText p" "\<not> isAudio p" "\<not> isSilence p"
    by (simp_all add: isText_def isAudio_def isSilence_def)
  show ?thesis
    using assms nt
    by (simp add: onMessage_def Let_def addPacketToHistory_def keys_delete)
qed

theorem onMessage_interactionEnd_clears_witness:
  "isInteractionEnd endPacket \<and>
   (\<exists>s'. onMessage env0 endPacket busyService = Some s'
      \<and> ''i1'' \<notin> fst ` set (packetsInProgress s')
      \<and> ''i1'' \<notin> fst ` set (cancelResponses s'))"
proof -
  have h: "isInteractionEnd endPacket"
    by (simp add: isInteractionEnd_def isControl_def endPacket_def mkPacket_def)
  have i: "interactionId (packetId endPacket) = ''i1''"
    by (simp add: endPacket_def mkPacket_def)
  show ?thesis
    using h onMessage_interactionEnd_clears [OF h, of env0 busyService] by (simp add: i)
qed



section \<open>Session token\<close>

text \<open>
  C6. The stored session \<open>oldToken\<close> is expired and the generator returns \<open>newToken\<close>:
  \<open>ensureSessionToken\<close> returns and keeps \<open>oldToken\<close>, the expired credential, because
  the refreshed object is spread from \<open>this.session\<close> and not from the generated token.
\<close>

theorem ensureSessionToken_expired_keeps_old:
  "isExpired env0 oldToken \<and> generateSessionToken env0 = Inr newToken
   \<and> ensureSessionToken env0 False expiredService = (Inr oldToken, expiredService)"
  by (simp add: ensureSessionToken_def env0_def expiredService_def service0_def
      oldToken_def newToken_def Let_def)

text \<open>
  With no stored session, \<open>ensureSessionToken\<close> stores and returns the token the
  generator yields (and the hook of \<open>loadScene\<close> has set the state to \<open>LOADING\<close>).
\<close>

theorem ensureSessionToken_first:
  assumes "session s = None" and "generateSessionToken env = Inr t"
  shows "ensureSessionToken env b s =
           (Inr t, (if b then s\<lparr>state := LOADING\<rparr> else s)\<lparr>session := Some t\<rparr>)"
  using assms by (simp add: ensureSessionToken_def)

theorem ensureSessionToken_first_witness:
  "session service0 = None \<and> generateSessionToken env0 = Inr newToken
   \<and> ensureSessionToken env0 False service0 = (Inr newToken, service0\<lparr>session := Some newToken\<rparr>)"
proof -
  have a: "session service0 = None" "generateSessionToken env0 = Inr newToken"
    by (simp_all add: service0_def env0_def)
  show ?thesis
    using a ensureSessionToken_first [OF a, of False] by simp
qed

section \<open>Interruption\<close>

text \<open>
  C10. When the playback collaborator reports no current packet, or
  \<open>stopForInteraction\<close> returns no stopped packet for the current packet's interaction,
  \<open>interrupt\<close> returns the service as it was: nothing is written to the transport, the
  two maps, the history, the state and the callbacks fired are unchanged. (No write is
  suspended when \<open>interrupt\<close> is called.)
\<close>

theorem interrupt_noop:
  assumes "getCurrentPacket env = None
           \<or> (\<exists>p. getCurrentPacket env = Some p
                  \<and> stopForInteraction env (interactionId (packetId p)) = [])"
    and "awaiting (connection s) = []"
  shows "interrupt env s = Some s"
  using assms
  by (auto simp add: interrupt_def interruptByPacket_unfold settle_quiet Let_def)

theorem interrupt_noop_witness:
  "getCurrentPacket env0 = None \<and> awaiting (connection busyService) = []
   \<and> interrupt env0 busyService = Some busyService
   \<and> getCurrentPacket (env0\<lparr>getCurrentPacket := Some playingPacket\<rparr>) = Some playingPacket
   \<and> stopForInteraction (env0\<lparr>getCurrentPacket := Some playingPacket\<rparr>) ''i1'' = []
   \<and> interrupt (env0\<lparr>getCurrentPacket := Some playingPacket\<rparr>) busyService
       = Some busyService"
proof -
  let ?env = "env0\<lparr>getCurrentPacket := Some playingPacket\<rparr>"
  have a: "getCurrentPacket env0 = None" by (simp add: env0_def)
  have b: "awaiting (connection busyService) = []"
    by (simp add: busyService_def activeService_def service0_def openSocket_def newConnection_def)
  have c: "getCurrentPacket ?env = Some playingPacket"
    "stopForInteraction ?env (interactionId (packetId playingPacket)) = []"
    "interactionId (packetId playingPacket) = ''i1''"
    by (simp_all add: env0_def playingPacket_def mkPacket_def)
  show ?thesis
    using a b c interrupt_noop [of env0 busyService] interrupt_noop [of ?env busyService]
    by simp
qed

section \<open>Reconnection\<close>

text \<open>
  C3. The failing run. The service is active with one packet in progress and
  auto-reconnect on; an error with the session-expired message arrives. \<open>onError\<close>
  drops the session and the scene, resets the state to \<open>INACTIVE\<close> and opens again (a
  new token, the scene reloaded, a second socket), but the open gets no packet to send:
  \<open>getPacketsToSentOnOpen\<close> replays \<open>packetsInProgress\<close> only in the state
  \<open>RECONNECTING\<close>, which nothing assigns. The packet stays in \<open>packetsInProgress\<close>
  and is not queued.
\<close>

theorem onError_reconnect_replays_nothing:
  "sessionExpiredRegExp_test ''Session abc expired or invalid''
   \<and> isAutoReconnected env0
   \<and> map fst (packetsInProgress inProgressService) = [''i1'']
   \<and> map_option (\<lambda>s. (state s, session s, scene s, length (sockets (connection s)),
                        packetQueue (connection s), map fst (packetsInProgress s)))
        (onError env0 ''Session abc expired or invalid'' inProgressService)
       = Some (ACTIVATING, Some newToken, Some [''alice''], 2, [], [''i1''])
   \<and> map getPacket (fst (getPacketsToSentOnOpen env0 (inProgressService\<lparr>state := RECONNECTING\<rparr>)))
       = [textPacket]"
  by (simp add: onError_unfold cs_open_unfold loadScene_unfold getPacketsToSentOnOpen_def
      ensureSessionToken_def Let_def isAutoReconnected_def env0_fields inProgressService_def
      activeService_def service0_def settle_def openSocket_def newConnection_def ws_open_def
      scheduleDisconnect_def match_here_def lineTerminator_def)

section \<open>Sending\<close>

text \<open>
  C7. \<open>send\<close> cancels the idle timer. When the service is not \<open>ACTIVE\<close> and
  auto-reconnect is disabled, the \<open>try\<close> block throws the usage error, which \<open>send\<close>
  catches and hands to \<open>onError\<close>: \<open>send\<close> comes to rest with the error reported and
  nothing else changed. In every other case \<open>send\<close> hands the item to the transport
  write and then, when the service is not \<open>ACTIVE\<close>, calls \<open>open\<close>: the transport queues
  the item while its socket is not open, so the connection is opened before the packet is
  transmitted.
\<close>

theorem send_inactive_or_delegates:
  "send_try env s =
     (if \<not> isActive s \<and> \<not> isAutoReconnected env
      then Inl ''Unable to send data due inactive connection'' else Inr (cancelScheduler s))
   \<and> send env p s =
     (if \<not> isActive s \<and> \<not> isAutoReconnected env
      then Some ((cancelScheduler s)
             \<lparr>callbacks := callbacks s @ [CbError ''Unable to send data due inactive connection'']\<rparr>)
      else Option.bind (connection_write env (writeItem env p) (cancelScheduler s))
             (\<lambda>s1. if \<not> isActive s1 then cs_open env s1 else Some s1))
   \<and> (\<not> ws_isActive (connection s) \<longrightarrow>
        connection_write env (writeItem env p) (cancelScheduler s) =
          Some (s\<lparr>disconnectTimer := False,
                  connection := (connection s)
                    \<lparr>packetQueue := packetQueue (connection s) @ [writeItem env p]\<rparr>\<rparr>))"
  by (simp add: send_unfold send_try_def onError_unfold cs_write_unfold isActive_def
      cancelScheduler_def Let_def connection_write_unfold ws_write_def)

theorem send_inactive_or_delegates_witness:
  "send (env0\<lparr>autoReconnect := Some False\<rparr>) textPacket service0 =
     Some (service0\<lparr>callbacks := [CbError ''Unable to send data due inactive connection'']\<rparr>)
   \<and> \<not> ws_isActive (connection service0)
   \<and> (\<exists>s'. send env0 textPacket service0 = Some s' \<and> state s' = ACTIVATING
         \<and> packetQueue (connection s') = [writeItem env0 textPacket]
         \<and> map readyState (sockets (connection s')) = [CONNECTING]
         \<and> wire (connection s') = []
         \<and> wire (open_event 0 (connection s')) = [textPacket])"
proof -
  have a: "send (env0\<lparr>autoReconnect := Some False\<rparr>) textPacket service0 =
     Some (service0\<lparr>callbacks := [CbError ''Unable to send data due inactive connection'']\<rparr>)"
    using send_inactive_or_delegates [of "env0\<lparr>autoReconnect := Some False\<rparr>" service0 textPacket]
    by (simp add: isActive_def isAutoReconnected_def service0_def cancelScheduler_def)
  have b: "send env0 textPacket service0 =
     Option.bind (connection_write env0 (writeItem env0 textPacket) (cancelScheduler service0))
             (\<lambda>s1. if \<not> isActive s1 then cs_open env0 s1 else Some s1)"
    using send_inactive_or_delegates [of env0 service0 textPacket]
    by (simp add: isActive_def isAutoReconnected_def service0_fields env0_fields)
  show ?thesis
    unfolding b
    by (simp add: a connection_write_unfold ws_isActive_def cancelScheduler_def service0_fields
        newConnection_def ws_write_def isActive_def cs_open_unfold getPacketsToSentOnOpen_def
        isAutoReconnected_def env0_fields loadScene_unfold ensureSessionToken_def Let_def
        settle_def ws_open_def scheduleDisconnect_def createWebSocket_def writeItem_def
        open_event_def ws_onReady_def run_microtasks_def ws_resume_def ws_send_outcome_def)
qed



section \<open>Persistence loop\<close>




end
